theory Spec2Isabelle
  imports Main
begin

section \<open>Go library functions used by the listener\<close>

text \<open>
  Go strings and byte slices are sequences of bytes; both are modelled as \<open>string\<close>
  (a list of 8-bit characters), so \<open>length\<close> is Go's \<open>len\<close>.
\<close>

type_synonym bytes = string

text \<open>
  \<^verbatim>\<open>strings.TrimLeft(s, cutset)\<close>: the leading bytes of \<open>s\<close> that occur in \<open>cutset\<close>
  are removed. The only call passes the one-byte ASCII cutset \<^verbatim>\<open>"/"\<close>.
\<close>

definition TrimLeft :: "string \<Rightarrow> string \<Rightarrow> string" where
  "TrimLeft s cutset = dropWhile (\<lambda>c. c \<in> set cutset) s"

text \<open>
  \<^verbatim>\<open>strings.Split(s, sep)\<close> for a separator of one byte (both calls pass one: \<^verbatim>\<open>"/"\<close> and
  \<^verbatim>\<open>","\<close>). Go cuts \<open>s\<close> at every occurrence of the separator; the result has one
  more element than there are separators, so the empty string gives one empty element.
\<close>

fun Split :: "string \<Rightarrow> char \<Rightarrow> string list" where
  "Split [] sep = [[]]"
| "Split (c # cs) sep =
     (if c = sep then [] # Split cs sep
      else (case Split cs sep of
              [] \<Rightarrow> [[c]]
            | x # xs \<Rightarrow> (c # x) # xs))"

text \<open>
  \<^verbatim>\<open>strings.ReplaceAll(s, old, new)\<close> where \<open>old\<close> and \<open>new\<close> are one byte each (the only
  call passes \<^verbatim>\<open>":"\<close> and \<^verbatim>\<open>"_"\<close>): every occurrence is replaced.
\<close>

definition ReplaceAll :: "string \<Rightarrow> char \<Rightarrow> char \<Rightarrow> string" where
  "ReplaceAll s old new = map (\<lambda>c. if c = old then new else c) s"

section \<open>Flow addressing\<close>

text \<open>
  Modelled from the spec: the declarations of \<^verbatim>\<open>FlowKind\<close> and \<^verbatim>\<open>FlowReference\<close> are not
  among the sources. \<^verbatim>\<open>ExtractFlow\<close> converts a string to \<^verbatim>\<open>FlowKind\<close> and assigns the
  fields \<^verbatim>\<open>Kind\<close>, \<^verbatim>\<open>Namespace\<close> and \<^verbatim>\<open>Name\<close>; the spec gives
  \<^verbatim>\<open>{Kind: Flow|ClusterFlow, Namespace: string, Name: string}\<close>. A \<^verbatim>\<open>FlowKind\<close> is the
  string it was converted from; the two kinds the spec names are the path words.
\<close>

type_synonym FlowKind = string

record FlowReference =
  Kind :: FlowKind
  Namespace :: string
  Name :: string

definition FKFlow :: FlowKind where
  "FKFlow = ''flow''"

definition FKClusterFlow :: FlowKind where
  "FKClusterFlow = ''clusterflow''"

text \<open>The values of Go's \<^verbatim>\<open>error\<close> that the listener creates with \<^verbatim>\<open>errors.New\<close>.\<close>

datatype error = ErrorString string

text \<open>
  \<^verbatim>\<open>ExtractFlow\<close> of \<^verbatim>\<open>internal/listener.go\<close>, applied to \<^verbatim>\<open>req.URL.Path\<close>. Go returns the
  pair \<^verbatim>\<open>(res, err)\<close>; a non-nil error is \<open>Inl\<close>, and the zero \<^verbatim>\<open>res\<close> that accompanies it
  is not a result.
\<close>

definition ExtractFlow :: "string \<Rightarrow> error + FlowReference" where
  "ExtractFlow path =
     (let elts = Split (TrimLeft path ''/'') CHR ''/'' in
      if length elts < 3 then Inl (ErrorString ''error parsing listener reg URL'')
      else Inr \<lparr>Kind = elts ! 0, Namespace = elts ! 1, Name = elts ! 2\<rparr>)"

text \<open>
  The earlier revision of \<^verbatim>\<open>ExtractFlow\<close> (the second source file), which returns a
  \<^verbatim>\<open>types.NamespacedName\<close>: a namespace and a name, with no kind.
\<close>

record NamespacedName =
  nn_Namespace :: string
  nn_Name :: string

definition ExtractFlow_v0 :: "string \<Rightarrow> error + NamespacedName" where
  "ExtractFlow_v0 path =
     (let elts = Split (TrimLeft path ''/'') CHR ''/'' in
      if length elts < 2 then Inl (ErrorString ''error parsing listener reg URL'')
      else if elts ! 0 = ''flow'' then
        (if length elts \<noteq> 3 then Inl (ErrorString ''error parsing listener reg URL'')
         else Inr \<lparr>nn_Namespace = elts ! 1, nn_Name = elts ! 2\<rparr>)
      else if elts ! 0 = ''clusterflow'' then
        Inr \<lparr>nn_Namespace = [], nn_Name = elts ! 1\<rparr>
      else Inl (ErrorString ''unknown flow type in listener reg URL''))"

section \<open>Records, identities and listeners\<close>

text \<open>
  Modelled from the spec: the declaration of \<^verbatim>\<open>Record\<close> and the function \<^verbatim>\<open>GetIn\<close> are not
  among the sources. The spec gives \<^verbatim>\<open>{Fields: nested string-keyed mapping, Raw: byte
  payload}\<close>; the listener reads the fields \<^verbatim>\<open>Data\<close> and \<^verbatim>\<open>RawData\<close>. A value of Go's
  \<^verbatim>\<open>interface{}\<close> in such a mapping is nil, a string, a nested mapping, or a value of some
  other dynamic type.
\<close>

datatype jvalue =
    JNil
  | JString string
  | JMap "(string \<times> jvalue) list"
  | JOther

record Record =
  Data :: "(string \<times> jvalue) list"
  RawData :: bytes

text \<open>
  Modelled from the spec: \<^verbatim>\<open>GetIn(m, keys...)\<close> locates a nested field; the result is nil
  when a key is absent or when the path leads through a value that is not a mapping.
\<close>

fun GetIn :: "(string \<times> jvalue) list \<Rightarrow> string list \<Rightarrow> jvalue" where
  "GetIn m [] = JMap m"
| "GetIn m [k] = (case map_of m k of None \<Rightarrow> JNil | Some v \<Rightarrow> v)"
| "GetIn m (k # k' # ks) =
     (case map_of m k of
        Some (JMap m') \<Rightarrow> GetIn m' (k' # ks)
      | _ \<Rightarrow> JNil)"

text \<open>
  \<^verbatim>\<open>authv1.UserInfo\<close> of the Kubernetes API: the listener reads \<^verbatim>\<open>Username\<close> only.
\<close>

record UserInfo =
  Username :: string
  UID :: string
  Groups :: "string list"

text \<open>
  The \<^verbatim>\<open>listener\<close> struct. The connection, the registry and the log sink are references;
  each is modelled by a handle.
\<close>

record listener =
  Conn :: nat
  reg :: nat
  logs :: nat
  flow :: FlowReference
  usrInfo :: UserInfo

definition Equals :: "listener \<Rightarrow> listener \<Rightarrow> bool" where
  "Equals l o' = (Conn l = Conn o')"

definition Flow :: "listener \<Rightarrow> FlowReference" where
  "Flow l = flow l"

section \<open>Effects\<close>

text \<open>
  Modelled from the spec: the package \<^verbatim>\<open>metrics\<close> is not among the sources. The spec names
  the counters (listener-total, listener-rejected, listener-approved, listener-removed,
  log-transferred, log-filtered, bytes-transferred, bytes-filtered); the constructors keep
  the names the listener passes.
\<close>

datatype metric =
    MListenerTotal | MListenerRejected | MListenerApproved | MListenerRemoved
  | MLogFiltered | MLogTransfered | MBytesFiltered | MBytesTransferred

text \<open>
  Every call that leaves the listener (to the metrics, the log sink, the authenticator, the
  HTTP response, the websocket connection, the registry, and every goroutine it starts) is
  an event; a function returns the events it performs, in program order.
\<close>

datatype event =
    LogEvent string "error option"
  | Metrics_Listeners metric
  | Metrics_Log metric
  | Metrics_Bytes metric nat
  | Header_Get string
  | Authenticate string
  | Call_ExtractFlow string
  | Http_Error string nat
  | Upgrade
  | Register listener
  | Unregister listener
  | Go_Unregister listener
  | Go_ReadLoop nat
  | SetCloseHandler nat listener
  | NextWriter nat
  | Write bytes
  | Close

text \<open>
  Modelled from the spec: what the calls to \<^verbatim>\<open>metrics\<close> do to a counter. \<^verbatim>\<open>metrics.Listeners(k)\<close>
  and \<^verbatim>\<open>metrics.Log(k)\<close> add one to counter \<open>k\<close>, \<^verbatim>\<open>metrics.Bytes(k, n)\<close> adds \<open>n\<close>.
  \<open>counter k evs\<close> is what the events \<open>evs\<close> add to counter \<open>k\<close>.
\<close>

fun counter_step :: "metric \<Rightarrow> event \<Rightarrow> nat" where
  "counter_step k (Metrics_Listeners k') = (if k = k' then 1 else 0)"
| "counter_step k (Metrics_Log k') = (if k = k' then 1 else 0)"
| "counter_step k (Metrics_Bytes k' n) = (if k = k' then n else 0)"
| "counter_step k _ = 0"

fun counter :: "metric \<Rightarrow> event list \<Rightarrow> nat" where
  "counter k [] = 0"
| "counter k (e # es) = counter_step k e + counter k es"

text \<open>The calls to \<^verbatim>\<open>metrics\<close> among the events, in order.\<close>

fun metrics_calls :: "event list \<Rightarrow> event list" where
  "metrics_calls [] = []"
| "metrics_calls (Metrics_Listeners k # es) = Metrics_Listeners k # metrics_calls es"
| "metrics_calls (Metrics_Log k # es) = Metrics_Log k # metrics_calls es"
| "metrics_calls (Metrics_Bytes k n # es) = Metrics_Bytes k n # metrics_calls es"
| "metrics_calls (_ # es) = metrics_calls es"

text \<open>The payloads handed to the frame writer, in order.\<close>

fun written :: "event list \<Rightarrow> bytes list" where
  "written [] = []"
| "written (Write data # es) = data # written es"
| "written (_ # es) = written es"

text \<open>The goroutines \<^verbatim>\<open>go l.reg.Unregister(l)\<close> started, in order.\<close>

fun scheduled :: "event list \<Rightarrow> listener list" where
  "scheduled [] = []"
| "scheduled (Go_Unregister l # es) = l # scheduled es"
| "scheduled (_ # es) = scheduled es"

section \<open>The send protocol\<close>

text \<open>
  \<^verbatim>\<open>SeekSlice\<close>: the index of the first element equal to \<open>str\<close>, or \<open>-1\<close>. The loop
  carries the index \<open>i\<close>.
\<close>

fun SeekSlice_from :: "int \<Rightarrow> string list \<Rightarrow> string \<Rightarrow> int" where
  "SeekSlice_from i [] str = - 1"
| "SeekSlice_from i (s # slice) str = (if s = str then i else SeekSlice_from (i + 1) slice str)"

definition SeekSlice :: "string list \<Rightarrow> string \<Rightarrow> int" where
  "SeekSlice slice str = SeekSlice_from 0 slice str"

text \<open>
  What the websocket connection answers to the three calls of one send: the error of
  \<^verbatim>\<open>Conn.NextWriter\<close>, of \<^verbatim>\<open>wc.Write\<close> and of \<^verbatim>\<open>wc.Close\<close> (\<open>None\<close> is Go's nil error).
\<close>

record conn_io =
  nextWriter_err :: "error option"
  write_err :: "error option"
  close_err :: "error option"

text \<open>
  A call either returns or panics; the only panic of the listener is the run-time error of
  a failed type assertion. The events performed before a panic have happened.
\<close>

datatype outcome = Returned | Panicked

text \<open>
  The format \<^verbatim>\<open>{"error": "Permission denied to access %s logs for %s"}\<close> of
  \<^verbatim>\<open>fmt.Sprintf\<close>, with its two string arguments.
\<close>

definition permission_denied :: "string \<Rightarrow> string \<Rightarrow> bytes" where
  \<open>permission_denied pod user =
     ''{"error": "Permission denied to access '' @ pod @ '' logs for '' @ user @ ''"}''\<close>

text \<open>
  The second half of \<^verbatim>\<open>Send\<close>, from \<^verbatim>\<open>l.Conn.NextWriter\<close> to the label \<^verbatim>\<open>unregister\<close>.
\<close>

definition Send_write :: "conn_io \<Rightarrow> listener \<Rightarrow> bytes \<Rightarrow> event list" where
  "Send_write io l data =
     NextWriter (Conn l) #
     (case nextWriter_err io of
        Some err \<Rightarrow>
          [LogEvent ''an error occurred while getting next writer for websocket connection'' (Some err),
           Go_Unregister l]
      | None \<Rightarrow>
          Write data #
          (case write_err io of
             Some err \<Rightarrow>
               [LogEvent ''an error occurred while writing record data to websocket connection'' (Some err),
                Go_Unregister l]
           | None \<Rightarrow>
               Close #
               (case close_err io of
                  Some err \<Rightarrow>
                    [LogEvent ''an error occurred while flushing frame to websocket connection'' (Some err),
                     Go_Unregister l]
                | None \<Rightarrow> [])))"


text \<open>
  \<^verbatim>\<open>Send\<close>. The constant \<^verbatim>\<open>RBACAllowList\<close> is declared outside the sources and is a
  parameter. The type assertion \<^verbatim>\<open>.(string)\<close> with \<^verbatim>\<open>ok\<close> fails quietly on any value that
  is not a string; the one without \<^verbatim>\<open>ok\<close> panics.
\<close>

definition Send :: "string \<Rightarrow> conn_io \<Rightarrow> listener \<Rightarrow> Record \<Rightarrow> outcome \<times> event list" where
  "Send RBACAllowList io l r =
     (case GetIn (Data r) [''kubernetes'', ''labels'', RBACAllowList] of
        JString allowListStr \<Rightarrow>
          (let allowList = Split allowListStr CHR '','' in
           if SeekSlice allowList (ReplaceAll (Username (usrInfo l)) CHR '':'' CHR ''_'') = - 1
           then
             (case GetIn (Data r) [''kubernetes'', ''pod_name''] of
                JString pod \<Rightarrow>
                  (Returned,
                   [Metrics_Log MLogFiltered, Metrics_Bytes MBytesFiltered (length (RawData r))]
                   @ Send_write io l (permission_denied pod (Username (usrInfo l))))
              | _ \<Rightarrow>
                  (Panicked,
                   [Metrics_Log MLogFiltered, Metrics_Bytes MBytesFiltered (length (RawData r))]))
           else
             (Returned,
              [Metrics_Log MLogTransfered, Metrics_Bytes MBytesTransferred (length (RawData r))]
              @ Send_write io l (RawData r)))
      | _ \<Rightarrow> (Returned, [LogEvent ''RBAC list missing from log record'' None]))"

section \<open>The admission handler\<close>

text \<open>
  The request as the handler reads it: the header (keys in canonical form, each with its
  values) and \<^verbatim>\<open>URL.Path\<close>. \<^verbatim>\<open>Header.Get\<close> is the first value of the key, or the empty
  string when there is none.
\<close>

record Request =
  Header :: "(string \<times> string list) list"
  URL_Path :: string

definition Get :: "(string \<times> string list) list \<Rightarrow> string \<Rightarrow> string" where
  "Get h key = (case map_of h key of Some (v # vs) \<Rightarrow> v | _ \<Rightarrow> [])"

definition Error :: "error \<Rightarrow> string" where
  "Error e = (case e of ErrorString s \<Rightarrow> s)"

definition StatusForbidden :: nat where
  "StatusForbidden = 403"

definition StatusNotFound :: nat where
  "StatusNotFound = 404"

definition StatusInternalServerError :: nat where
  "StatusInternalServerError = 500"

text \<open>
  The close handler installed on an admitted connection, when the connection calls it.
\<close>

definition CloseHandler :: "listener \<Rightarrow> event list" where
  "CloseHandler l =
     [Metrics_Listeners MListenerRemoved,
      LogEvent ''websocket connection closing'' None,
      Unregister l]"

text \<open>
  The handler function of \<^verbatim>\<open>Listen\<close> in \<^verbatim>\<open>internal/listener.go\<close>. The constant
  \<^verbatim>\<open>AuthHeaderKey\<close> is declared outside the sources and is a parameter, as are the
  collaborators: \<open>authenticator\<close> is \<^verbatim>\<open>authenticator.Authenticate\<close>, \<open>upgrader\<close> is
  \<^verbatim>\<open>upgrader.Upgrade\<close> (the handle of the new connection, or an error), \<open>rg\<close> and \<open>lg\<close> are
  the registry and the log sink.
\<close>

definition Listen_handler ::
  "string \<Rightarrow> (string \<Rightarrow> error + UserInfo) \<Rightarrow> (Request \<Rightarrow> error + nat) \<Rightarrow> nat \<Rightarrow> nat
     \<Rightarrow> Request \<Rightarrow> event list" where
  "Listen_handler AuthHeaderKey authenticator upgrader rg lg r =
     [LogEvent ''new listener'' None, Metrics_Listeners MListenerTotal, Header_Get AuthHeaderKey] @
     (let authToken = Get (Header r) AuthHeaderKey in
      if authToken = [] then
        [Metrics_Listeners MListenerRejected,
         Http_Error ''missing authentication token'' StatusForbidden]
      else
        Authenticate authToken #
        (case authenticator authToken of
           Inl err \<Rightarrow>
             [Metrics_Listeners MListenerRejected,
              Http_Error (Error err) StatusInternalServerError]
         | Inr usr \<Rightarrow>
             Call_ExtractFlow (URL_Path r) #
             (case ExtractFlow (URL_Path r) of
                Inl err \<Rightarrow> [Http_Error (Error err) StatusNotFound]
              | Inr nn \<Rightarrow>
                  Upgrade #
                  (case upgrader r of
                     Inl err \<Rightarrow> [LogEvent ''failed to upgrade connection'' (Some err)]
                   | Inr wsConn \<Rightarrow>
                       (let l = \<lparr>Conn = wsConn, reg = rg, logs = lg, flow = nn, usrInfo = usr\<rparr> in
                        [LogEvent ''successful websocket upgrade'' None,
                         Metrics_Listeners MListenerApproved,
                         Register l,
                         Go_ReadLoop wsConn,
                         SetCloseHandler wsConn l])))))"

text \<open>
  The earlier revision of the handler (the second source file). Its listener has no
  identity and its flow is a \<^verbatim>\<open>types.NamespacedName\<close>; the handler reads no token, calls
  no authenticator, and upgrades the connection before it parses the flow.
\<close>

record listener_v0 =
  Conn_v0 :: nat
  reg_v0 :: nat
  logs_v0 :: nat
  flow_v0 :: NamespacedName

datatype event_v0 =
    LogEvent_v0 string "error option"
  | Upgrade_v0
  | Call_ExtractFlow_v0 string
  | Http_Error_v0 string nat
  | Register_v0 listener_v0
  | SetCloseHandler_v0 nat listener_v0

definition Listen_handler_v0 ::
  "(Request \<Rightarrow> error + nat) \<Rightarrow> nat \<Rightarrow> nat \<Rightarrow> Request \<Rightarrow> event_v0 list" where
  "Listen_handler_v0 upgrader rg lg r =
     LogEvent_v0 ''new listener'' None #
     Upgrade_v0 #
     (case upgrader r of
        Inl err \<Rightarrow> [LogEvent_v0 ''failed to upgrade connection'' (Some err)]
      | Inr wsConn \<Rightarrow>
          LogEvent_v0 ''successful websocket upgrade'' None #
          Call_ExtractFlow_v0 (URL_Path r) #
          (case ExtractFlow_v0 (URL_Path r) of
             Inl err \<Rightarrow> [Http_Error_v0 (Error err) StatusNotFound]
           | Inr nn \<Rightarrow>
               (let l = \<lparr>Conn_v0 = wsConn, reg_v0 = rg, logs_v0 = lg, flow_v0 = nn\<rparr> in
                [Register_v0 l, SetCloseHandler_v0 wsConn l])))"

text \<open>The responses written with \<^verbatim>\<open>http.Error\<close>: the text and the status, in order.\<close>

fun responses :: "event list \<Rightarrow> (string \<times> nat) list" where
  "responses [] = []"
| "responses (Http_Error msg status # es) = (msg, status) # responses es"
| "responses (_ # es) = responses es"

text \<open>
  The calls to the registry that a sequence of events holds or prepares: a registration, an
  unregistration, a goroutine that unregisters, and a close handler (which unregisters
  when it runs).
\<close>

fun registry_event :: "event \<Rightarrow> bool" where
  "registry_event (Register l) = True"
| "registry_event (Unregister l) = True"
| "registry_event (Go_Unregister l) = True"
| "registry_event (SetCloseHandler c l) = True"
| "registry_event _ = False"

section \<open>Example inputs\<close>

text \<open>
  A record of a pod \<^verbatim>\<open>p1\<close> with the payload \<^verbatim>\<open>hello\<close>, whose access list (under the
  label \<^verbatim>\<open>rbac\<close>) is \<open>L\<close>; the same record without the pod name; a record with no
  labels; a listener on connection 7 for the user \<open>u\<close>; and a connection on which every
  write succeeds.
\<close>

definition example_record :: "string \<Rightarrow> Record" where
  "example_record L =
     \<lparr>Data = [(''kubernetes'',
               JMap [(''labels'', JMap [(''rbac'', JString L)]),
                     (''pod_name'', JString ''p1'')])],
      RawData = ''hello''\<rparr>"

definition example_record_no_pod :: "string \<Rightarrow> Record" where
  "example_record_no_pod L =
     \<lparr>Data = [(''kubernetes'', JMap [(''labels'', JMap [(''rbac'', JString L)])])],
      RawData = ''hello''\<rparr>"

definition example_record_no_labels :: Record where
  "example_record_no_labels =
     \<lparr>Data = [(''kubernetes'', JMap [(''pod_name'', JString ''p1'')])],
      RawData = ''hello''\<rparr>"

definition example_listener :: "string \<Rightarrow> listener" where
  "example_listener u =
     \<lparr>Conn = 7, reg = 0, logs = 0,
      flow = \<lparr>Kind = ''flow'', Namespace = ''ns'', Name = ''name''\<rparr>,
      usrInfo = \<lparr>Username = u, UID = [], Groups = []\<rparr>\<rparr>"


text \<open>
  A request for \<open>path\<close> with the token \<^verbatim>\<open>tok\<close> under the header \<^verbatim>\<open>Authorization\<close>; an
  authenticator that accepts the token \<^verbatim>\<open>tok\<close> only, as the user \<^verbatim>\<open>bob\<close>; an upgrader
  that gives connection 7, and one that fails.
\<close>

definition example_request :: "string \<Rightarrow> Request" where
  "example_request path = \<lparr>Header = [(''Authorization'', [''tok''])], URL_Path = path\<rparr>"

definition example_authenticator :: "string \<Rightarrow> error + UserInfo" where
  "example_authenticator token =
     (if token = ''tok'' then Inr \<lparr>Username = ''bob'', UID = [], Groups = []\<rparr>
      else Inl (ErrorString ''token review failed''))"

definition example_upgrader :: "Request \<Rightarrow> error + nat" where
  "example_upgrader r = Inr 7"

definition failing_upgrader :: "Request \<Rightarrow> error + nat" where
  "failing_upgrader r = Inl (ErrorString ''websocket: not a websocket handshake'')"

definition io_ok :: conn_io where
  "io_ok = \<lparr>nextWriter_err = None, write_err = None, close_err = None\<rparr>"

section \<open>The invariant of the data model, in the specification's words\<close>

text \<open>
  The specification's invariant of a flow reference: the namespace is empty if and only if
  the kind is the cluster flow. It is stated here to be compared with what \<open>ExtractFlow\<close>
  produces; no function of the listener checks it.
\<close>

definition spec_FlowReference_invariant :: "FlowReference \<Rightarrow> bool" where
  "spec_FlowReference_invariant f = (Namespace f = [] \<longleftrightarrow> Kind f = FKClusterFlow)"

section \<open>Properties of the library functions\<close>

lemma Split_not_Nil: "Split s sep \<noteq> []"
  by (induction s) (auto split: list.splits)

lemma Split_no_sep: "sep \<notin> set k \<Longrightarrow> Split k sep = [k]"
  by (induction k) (auto split: list.splits)

lemma Split_append_sep: "sep \<notin> set k \<Longrightarrow> Split (k @ sep # rest) sep = k # Split rest sep"
  by (induction k) (auto split: list.splits)

text \<open>The number of elements is the number of separators plus one, as in Go.\<close>

lemma length_Split: "length (Split s sep) = Suc (count_list s sep)"
  by (induction s) (auto split: list.splits)

text \<open>
  When the result has at least two elements, the first one is the text before the first
  separator, and the others are the result for the text after it.
\<close>

lemma Split_Cons_Cons:
  "Split s sep = x # y # ys \<Longrightarrow> \<exists>t. s = x @ sep # t \<and> sep \<notin> set x \<and> Split t sep = y # ys"
proof (induction s arbitrary: x)
  case Nil
  then show ?case by simp
next
  case (Cons c cs)
  show ?case
  proof (cases "c = sep")
    case True
    with Cons.prems show ?thesis by auto
  next
    case False
    with Cons.prems obtain x' where x: "x = c # x'" and s: "Split cs sep = x' # y # ys"
      by (auto split: list.splits)
    from Cons.IH [OF s] obtain t where "cs = x' @ sep # t" "sep \<notin> set x'" "Split t sep = y # ys"
      by blast
    with x False show ?thesis by auto
  qed
qed

lemma Split_hd_Nil:
  "Split s sep = [] # y # ys \<longleftrightarrow> (\<exists>t. s = sep # t \<and> Split t sep = y # ys)"
  by (cases s) (auto split: list.splits if_splits)

text \<open>The first element has no separator and is a prefix that ends the text or is followed by one.\<close>

lemma Split_single: "Split s sep = [x] \<Longrightarrow> s = x \<and> sep \<notin> set x"
proof (induction s arbitrary: x)
  case Nil
  then show ?case by simp
next
  case (Cons c cs)
  show ?case
  proof (cases "c = sep")
    case True
    with Cons.prems show ?thesis by (simp add: Split_not_Nil)
  next
    case False
    with Cons.prems obtain x' where x: "x = c # x'" and s: "Split cs sep = [x']"
      by (auto simp: Split_not_Nil split: list.splits)
    from Cons.IH [OF s] x False show ?thesis by auto
  qed
qed

lemma Split_Cons_tail:
  "Split s sep = x # ys \<Longrightarrow>
     sep \<notin> set x \<and> (\<exists>rest. s = x @ rest \<and> (rest = [] \<or> (\<exists>t. rest = sep # t)))"
proof (cases ys)
  case Nil
  assume "Split s sep = x # ys"
  with Nil Split_single [of s sep x] show ?thesis by simp
next
  case (Cons y ys')
  assume "Split s sep = x # ys"
  with Cons Split_Cons_Cons [of s sep x y ys'] show ?thesis by auto
qed

lemma TrimLeft_slash:
  "c \<noteq> CHR ''/'' \<Longrightarrow> TrimLeft (replicate m CHR ''/'' @ c # s) ''/'' = c # s"
  by (induction m) (simp_all add: TrimLeft_def)

lemma ReplaceAll_idem: "ReplaceAll (ReplaceAll s a b) a b = ReplaceAll s a b"
  by (simp add: ReplaceAll_def)

section \<open>Flow addressing: what \<open>ExtractFlow\<close> accepts\<close>

lemma ExtractFlow_cases:
  "ExtractFlow path =
     (case Split (TrimLeft path ''/'') CHR ''/'' of
        k # ns # n # rest \<Rightarrow> Inr \<lparr>Kind = k, Namespace = ns, Name = n\<rparr>
      | _ \<Rightarrow> Inl (ErrorString ''error parsing listener reg URL''))"
  by (simp add: ExtractFlow_def Let_def split: list.splits)

text \<open>
  On the paths themselves: \<^verbatim>\<open>/<kind>/<namespace>/<name>\<close> is accepted for every first
  segment, and \<^verbatim>\<open>/<kind>/<name>\<close> is refused for every first segment.
\<close>

lemma ExtractFlow_three_segments:
  assumes "CHR ''/'' \<notin> set k" "CHR ''/'' \<notin> set ns" "CHR ''/'' \<notin> set n" "k \<noteq> []"
  shows "ExtractFlow (CHR ''/'' # k @ CHR ''/'' # ns @ CHR ''/'' # n)
         = Inr \<lparr>Kind = k, Namespace = ns, Name = n\<rparr>"
proof -
  obtain c k' where k: "k = c # k'" using assms(4) by (cases k) auto
  with assms(1) have c: "c \<noteq> CHR ''/''" by auto
  have "TrimLeft (CHR ''/'' # k @ CHR ''/'' # ns @ CHR ''/'' # n) ''/''
        = k @ CHR ''/'' # ns @ CHR ''/'' # n"
    using TrimLeft_slash [OF c, of 1] k by simp
  moreover have "Split (k @ CHR ''/'' # ns @ CHR ''/'' # n) CHR ''/'' = [k, ns, n]"
    using assms by (simp add: Split_append_sep Split_no_sep)
  ultimately show ?thesis by (simp add: ExtractFlow_def)
qed

lemma ExtractFlow_two_segments:
  assumes "CHR ''/'' \<notin> set k" "CHR ''/'' \<notin> set n" "k \<noteq> []"
  shows "ExtractFlow (CHR ''/'' # k @ CHR ''/'' # n)
         = Inl (ErrorString ''error parsing listener reg URL'')"
proof -
  obtain c k' where k: "k = c # k'" using assms(3) by (cases k) auto
  with assms(1) have c: "c \<noteq> CHR ''/''" by auto
  have "TrimLeft (CHR ''/'' # k @ CHR ''/'' # n) ''/'' = k @ CHR ''/'' # n"
    using TrimLeft_slash [OF c, of 1] k by simp
  moreover have "Split (k @ CHR ''/'' # n) CHR ''/'' = [k, n]"
    using assms by (simp add: Split_append_sep Split_no_sep)
  ultimately show ?thesis by (simp add: ExtractFlow_def)
qed

text \<open>
  The earlier revision accepts a cluster flow path with further segments after the name:
  its \<^verbatim>\<open>clusterflow\<close> case has no test of the segment count, where its \<^verbatim>\<open>flow\<close> case
  has one.
\<close>

lemma ExtractFlow_v0_extra_segments:
  "ExtractFlow_v0 ''/clusterflow/a/b'' = Inr \<lparr>nn_Namespace = [], nn_Name = ''a''\<rparr>"
  by (simp add: ExtractFlow_v0_def TrimLeft_def)

text \<open>
  C2, as stated, fails: the path \<^verbatim>\<open>/clusterflow/a/b\<close> has three segments and is accepted,
  the path \<^verbatim>\<open>/clusterflow/a\<close> of the shape \<^verbatim>\<open>["clusterflow", name]\<close> is a parse error,
  and the unrecognized first segment of \<^verbatim>\<open>/other/a/b\<close> is accepted as the kind.
\<close>

theorem ExtractFlow_two_shapes_counterexample:
  "ExtractFlow ''/clusterflow/a/b''
     = Inr \<lparr>Kind = ''clusterflow'', Namespace = ''a'', Name = ''b''\<rparr>
   \<and> ExtractFlow ''/clusterflow/a'' = Inl (ErrorString ''error parsing listener reg URL'')
   \<and> ExtractFlow ''/other/a/b'' = Inr \<lparr>Kind = ''other'', Namespace = ''a'', Name = ''b''\<rparr>"
  by (simp add: ExtractFlow_def TrimLeft_def)

text \<open>
  C2, amended: for every request path, \<open>ExtractFlow\<close> succeeds exactly when the path, without
  its leading slashes and split at the slashes, has at least three segments. The first
  three segments are then the kind (whatever the segment is), the namespace and the name,
  and further segments are ignored. Every path with fewer than three segments is a parse
  error with no flow reference. A path is accepted exactly when, after its leading
  slashes, it holds at least two slashes.
\<close>

theorem ExtractFlow_shapes:
  "ExtractFlow path =
     (case Split (TrimLeft path ''/'') CHR ''/'' of
        k # ns # n # rest \<Rightarrow> Inr \<lparr>Kind = k, Namespace = ns, Name = n\<rparr>
      | [k, n] \<Rightarrow> Inl (ErrorString ''error parsing listener reg URL'')
      | [k] \<Rightarrow> Inl (ErrorString ''error parsing listener reg URL'')
      | [] \<Rightarrow> Inl (ErrorString ''error parsing listener reg URL''))
   \<and> ((\<exists>r. ExtractFlow path = Inr r) \<longleftrightarrow> 2 \<le> count_list (TrimLeft path ''/'') CHR ''/'')"
proof
  show "ExtractFlow path =
     (case Split (TrimLeft path ''/'') CHR ''/'' of
        k # ns # n # rest \<Rightarrow> Inr \<lparr>Kind = k, Namespace = ns, Name = n\<rparr>
      | [k, n] \<Rightarrow> Inl (ErrorString ''error parsing listener reg URL'')
      | [k] \<Rightarrow> Inl (ErrorString ''error parsing listener reg URL'')
      | [] \<Rightarrow> Inl (ErrorString ''error parsing listener reg URL''))"
    by (simp add: ExtractFlow_cases split: list.splits)
  have "(\<exists>r. ExtractFlow path = Inr r) \<longleftrightarrow> 3 \<le> length (Split (TrimLeft path ''/'') CHR ''/'')"
    by (auto simp: ExtractFlow_def Let_def)
  then show "(\<exists>r. ExtractFlow path = Inr r) \<longleftrightarrow> 2 \<le> count_list (TrimLeft path ''/'') CHR ''/''"
    by (simp add: length_Split)
qed

text \<open>
  C9, as stated, fails: the reference parsed from \<^verbatim>\<open>/clusterflow/ns/name\<close> has the kind of
  a cluster flow and the namespace \<^verbatim>\<open>ns\<close>.
\<close>

theorem ExtractFlow_invariant_counterexample:
  "ExtractFlow ''/clusterflow/ns/name''
     = Inr \<lparr>Kind = FKClusterFlow, Namespace = ''ns'', Name = ''name''\<rparr>
   \<and> \<not> spec_FlowReference_invariant \<lparr>Kind = FKClusterFlow, Namespace = ''ns'', Name = ''name''\<rparr>"
  by (simp add: ExtractFlow_def TrimLeft_def FKClusterFlow_def spec_FlowReference_invariant_def)

text \<open>
  C9, amended: in every flow reference produced by a successful parse, the namespace is the
  second path segment whatever the kind is (and the kind is the first): the path without
  its leading slashes is the kind, a slash, the namespace, a slash and the name, none of
  which holds a slash, and then ends or goes on with a slash. The namespace is empty if
  and only if that segment is empty, that is, the path without its leading slashes is the
  kind followed by two slashes.
\<close>

theorem ExtractFlow_Namespace_segment:
  assumes "ExtractFlow path = Inr r"
  shows "Kind r = Split (TrimLeft path ''/'') CHR ''/'' ! 0
       \<and> Namespace r = Split (TrimLeft path ''/'') CHR ''/'' ! 1
       \<and> (\<exists>rest. TrimLeft path ''/'' = Kind r @ ''/'' @ Namespace r @ ''/'' @ Name r @ rest
             \<and> (rest = [] \<or> (\<exists>t. rest = CHR ''/'' # t)))
       \<and> CHR ''/'' \<notin> set (Kind r) \<and> CHR ''/'' \<notin> set (Namespace r) \<and> CHR ''/'' \<notin> set (Name r)
       \<and> (Namespace r = [] \<longleftrightarrow> (\<exists>rest. TrimLeft path ''/'' = Kind r @ ''//'' @ rest))"
proof -
  let ?s = "TrimLeft path ''/''"
  from assms obtain segs where sp: "Split ?s CHR ''/'' = Kind r # Namespace r # Name r # segs"
    by (auto simp: ExtractFlow_cases split: list.splits)
  from Split_Cons_Cons [OF sp] obtain t where
    t: "?s = Kind r @ CHR ''/'' # t" "CHR ''/'' \<notin> set (Kind r)"
       "Split t CHR ''/'' = Namespace r # Name r # segs"
    by blast
  from Split_Cons_Cons [OF t(3)] obtain t' where
    t': "t = Namespace r @ CHR ''/'' # t'" "CHR ''/'' \<notin> set (Namespace r)"
        "Split t' CHR ''/'' = Name r # segs"
    by blast
  from Split_Cons_tail [OF t'(3)] obtain rest where
    rest: "CHR ''/'' \<notin> set (Name r)" "t' = Name r @ rest" "rest = [] \<or> (\<exists>u. rest = CHR ''/'' # u)"
    by blast
  have whole: "?s = Kind r @ ''/'' @ Namespace r @ ''/'' @ Name r @ rest"
    using t(1) t'(1) rest(2) by simp
  have empty: "Namespace r = [] \<longleftrightarrow> (\<exists>rest. ?s = Kind r @ ''//'' @ rest)"
  proof
    assume "Namespace r = []"
    with whole show "\<exists>rest. ?s = Kind r @ ''//'' @ rest" by simp
  next
    assume "\<exists>rest. ?s = Kind r @ ''//'' @ rest"
    then obtain u where "?s = Kind r @ ''//'' @ u" by blast
    with t(1) have "t = CHR ''/'' # u" by simp
    with t(3) show "Namespace r = []" by simp
  qed
  from sp have "Kind r = Split ?s CHR ''/'' ! 0" "Namespace r = Split ?s CHR ''/'' ! 1"
    by simp_all
  with whole rest(1,3) t(2) t'(2) empty show ?thesis by blast
qed

theorem ExtractFlow_Namespace_segment_witness:
  "ExtractFlow ''/clusterflow/ns/name''
     = Inr \<lparr>Kind = ''clusterflow'', Namespace = ''ns'', Name = ''name''\<rparr>
   \<and> Split (TrimLeft ''/clusterflow/ns/name'' ''/'') CHR ''/'' ! 1 = ''ns''
   \<and> ExtractFlow ''/flow//name'' = Inr \<lparr>Kind = ''flow'', Namespace = [], Name = ''name''\<rparr>
   \<and> Split (TrimLeft ''/flow//name'' ''/'') CHR ''/'' ! 1 = []
   \<and> (\<exists>rest. TrimLeft ''/flow//name'' ''/'' = ''flow'' @ ''//'' @ rest)
   \<and> \<not> (\<exists>rest. TrimLeft ''/clusterflow/ns/name'' ''/'' = ''clusterflow'' @ ''//'' @ rest)"
proof -
  have a: "ExtractFlow ''/clusterflow/ns/name''
           = Inr \<lparr>Kind = ''clusterflow'', Namespace = ''ns'', Name = ''name''\<rparr>"
    by (simp add: ExtractFlow_def TrimLeft_def)
  have b: "ExtractFlow ''/flow//name'' = Inr \<lparr>Kind = ''flow'', Namespace = [], Name = ''name''\<rparr>"
    by (simp add: ExtractFlow_def TrimLeft_def)
  from ExtractFlow_Namespace_segment [OF a]
  have a': "Split (TrimLeft ''/clusterflow/ns/name'' ''/'') CHR ''/'' ! 1 = ''ns''"
    "\<not> (\<exists>rest. TrimLeft ''/clusterflow/ns/name'' ''/'' = ''clusterflow'' @ ''//'' @ rest)"
    by (simp_all add: TrimLeft_def)
  from ExtractFlow_Namespace_segment [OF b]
  have b': "Split (TrimLeft ''/flow//name'' ''/'') CHR ''/'' ! 1 = []"
    "\<exists>rest. TrimLeft ''/flow//name'' ''/'' = ''flow'' @ ''//'' @ rest"
    by (simp_all add: TrimLeft_def)
  from a b a' b' show ?thesis by blast
qed

section \<open>The send protocol: lemmas\<close>

lemma SeekSlice_from_miss:
  "0 \<le> i \<Longrightarrow> SeekSlice_from i slice str = - 1 \<longleftrightarrow> str \<notin> set slice"
  by (induction slice arbitrary: i) auto

lemma SeekSlice_miss: "SeekSlice slice str = - 1 \<longleftrightarrow> str \<notin> set slice"
  by (simp add: SeekSlice_def SeekSlice_from_miss)

lemma counter_append: "counter k (xs @ ys) = counter k xs + counter k ys"
  by (induction xs) auto

lemma written_append: "written (xs @ ys) = written xs @ written ys"
  by (induction xs rule: written.induct) auto


lemma metrics_calls_append: "metrics_calls (xs @ ys) = metrics_calls xs @ metrics_calls ys"
  by (induction xs rule: metrics_calls.induct) auto

lemma counter_Send_write: "counter k (Send_write io l data) = 0"
  by (simp add: Send_write_def split: option.splits)

lemma metrics_calls_Send_write: "metrics_calls (Send_write io l data) = []"
  by (simp add: Send_write_def split: option.splits)

lemma written_Send_write:
  "written (Send_write io l data) = (if nextWriter_err io = None then [data] else [])"
  by (simp add: Send_write_def split: option.splits)


text \<open>The four ways through \<open>Send\<close>.\<close>

lemma Send_allowed:
  assumes "GetIn (Data r) [''kubernetes'', ''labels'', key] = JString L"
    and "ReplaceAll (Username (usrInfo l)) CHR '':'' CHR ''_'' \<in> set (Split L CHR '','')"
  shows "Send key io l r =
     (Returned,
      [Metrics_Log MLogTransfered, Metrics_Bytes MBytesTransferred (length (RawData r))]
      @ Send_write io l (RawData r))"
  using assms by (simp add: Send_def SeekSlice_miss)

lemma Send_denied:
  assumes "GetIn (Data r) [''kubernetes'', ''labels'', key] = JString L"
    and "ReplaceAll (Username (usrInfo l)) CHR '':'' CHR ''_'' \<notin> set (Split L CHR '','')"
    and "GetIn (Data r) [''kubernetes'', ''pod_name''] = JString pod"
  shows "Send key io l r =
     (Returned,
      [Metrics_Log MLogFiltered, Metrics_Bytes MBytesFiltered (length (RawData r))]
      @ Send_write io l (permission_denied pod (Username (usrInfo l))))"
  using assms by (simp add: Send_def SeekSlice_miss)

lemma Send_panic:
  assumes "GetIn (Data r) [''kubernetes'', ''labels'', key] = JString L"
    and "ReplaceAll (Username (usrInfo l)) CHR '':'' CHR ''_'' \<notin> set (Split L CHR '','')"
    and "\<forall>pod. GetIn (Data r) [''kubernetes'', ''pod_name''] \<noteq> JString pod"
  shows "Send key io l r =
     (Panicked,
      [Metrics_Log MLogFiltered, Metrics_Bytes MBytesFiltered (length (RawData r))])"
  using assms by (simp add: Send_def SeekSlice_miss split: jvalue.splits)

lemma Send_missing:
  assumes "\<forall>L. GetIn (Data r) [''kubernetes'', ''labels'', key] \<noteq> JString L"
  shows "Send key io l r = (Returned, [LogEvent ''RBAC list missing from log record'' None])"
  using assms by (simp add: Send_def split: jvalue.splits)

text \<open>
  An identity whose normal form is not the normal form of any candidate is not, in normal
  form, a candidate either: the normal form of a normal form is itself.
\<close>

lemma not_normalized_candidate:
  assumes "ReplaceAll u CHR '':'' CHR ''_''
           \<notin> set (map (\<lambda>c. ReplaceAll c CHR '':'' CHR ''_'') cands)"
  shows "ReplaceAll u CHR '':'' CHR ''_'' \<notin> set cands"
proof
  assume "ReplaceAll u CHR '':'' CHR ''_'' \<in> set cands"
  then have "ReplaceAll (ReplaceAll u CHR '':'' CHR ''_'') CHR '':'' CHR ''_''
             \<in> set (map (\<lambda>c. ReplaceAll c CHR '':'' CHR ''_'') cands)"
    by simp
  with assms show False by (simp only: ReplaceAll_idem)
qed

text \<open>
  When the pod name is a string, a subscriber whose normalized identity is not among the
  normalized candidates is sent the substitute payload, and the filtered counters grow by
  one and by the length of the original payload.
\<close>

lemma Send_denied_normalized:
  assumes "GetIn (Data r) [''kubernetes'', ''labels'', key] = JString L"
    and "ReplaceAll (Username (usrInfo l)) CHR '':'' CHR ''_''
         \<notin> set (map (\<lambda>c. ReplaceAll c CHR '':'' CHR ''_'') (Split L CHR '',''))"
    and "GetIn (Data r) [''kubernetes'', ''pod_name''] = JString pod"
  shows "fst (Send key io l r) = Returned"
    and "written (snd (Send key io l r))
         = (if nextWriter_err io = None then [permission_denied pod (Username (usrInfo l))] else [])"
    and "metrics_calls (snd (Send key io l r))
         = [Metrics_Log MLogFiltered, Metrics_Bytes MBytesFiltered (length (RawData r))]"
    and "counter MLogFiltered (snd (Send key io l r)) = 1"
    and "counter MBytesFiltered (snd (Send key io l r)) = length (RawData r)"
    and "counter MLogTransfered (snd (Send key io l r)) = 0"
    and "counter MBytesTransferred (snd (Send key io l r)) = 0"
  by (simp_all add: Send_denied [OF assms(1) not_normalized_candidate [OF assms(2)] assms(3)]
      counter_append counter_Send_write written_append written_Send_write
      metrics_calls_append metrics_calls_Send_write del: append.simps)



lemma GetIn_example_labels:
  "GetIn (Data (example_record L)) [''kubernetes'', ''labels'', ''rbac''] = JString L"
  "GetIn (Data (example_record_no_pod L)) [''kubernetes'', ''labels'', ''rbac''] = JString L"
  "GetIn (Data example_record_no_labels) [''kubernetes'', ''labels'', ''rbac''] = JNil"
  by (simp_all add: example_record_def example_record_no_pod_def example_record_no_labels_def)

lemma GetIn_example_pod:
  "GetIn (Data (example_record L)) [''kubernetes'', ''pod_name''] = JString ''p1''"
  "GetIn (Data (example_record_no_pod L)) [''kubernetes'', ''pod_name''] = JNil"
  by (simp_all add: example_record_def example_record_no_pod_def)

section \<open>The send protocol: the authorization decision\<close>

text \<open>
  C1, as stated, fails: the candidates are not normalized. For the user \<^verbatim>\<open>a:b\<close> and the
  access list \<^verbatim>\<open>a:b\<close>, the normalized identity \<^verbatim>\<open>a_b\<close> is the normal form of the only
  candidate, and the record is not delivered: the subscriber is sent the substitute payload.
\<close>

theorem Send_candidates_verbatim_counterexample:
  "Split ''a:b'' CHR '','' = [''a:b'']
   \<and> ReplaceAll ''a:b'' CHR '':'' CHR ''_'' = ''a_b''
   \<and> Send ''rbac'' io_ok (example_listener ''a:b'') (example_record ''a:b'')
       = (Returned,
          [Metrics_Log MLogFiltered, Metrics_Bytes MBytesFiltered 5,
           NextWriter 7, Write (permission_denied ''p1'' ''a:b''), Close])"
  by (simp add: Send_def SeekSlice_def ReplaceAll_def Send_write_def io_ok_def
      example_listener_def example_record_def)

text \<open>
  C1, amended: in \<open>Send\<close>, before the membership test, the subscriber's own identity is
  normalized by replacing every colon with an underscore; the candidates obtained by
  splitting the access list at the commas are compared as they are. For every subscriber
  identity \<open>u\<close> and access list \<open>L\<close>, the record is delivered if and only if the
  normalized \<open>u\<close> is an element of the split \<open>L\<close>: if it is, \<open>Send\<close> moves the
  transferred counters and hands the raw payload to the writer; if it is not, \<open>Send\<close>
  moves the filtered counters and the raw payload is withheld (the substitute payload goes
  to the writer, or \<open>Send\<close> panics on a pod name that is not a string).
\<close>

theorem Send_delivers_iff:
  assumes "GetIn (Data r) [''kubernetes'', ''labels'', key] = JString L"
  shows "Send key io l r =
           (if ReplaceAll (Username (usrInfo l)) CHR '':'' CHR ''_'' \<in> set (Split L CHR '','')
            then
              (Returned,
               [Metrics_Log MLogTransfered, Metrics_Bytes MBytesTransferred (length (RawData r))]
               @ Send_write io l (RawData r))
            else
              (case GetIn (Data r) [''kubernetes'', ''pod_name''] of
                 JString pod \<Rightarrow>
                   (Returned,
                    [Metrics_Log MLogFiltered, Metrics_Bytes MBytesFiltered (length (RawData r))]
                    @ Send_write io l (permission_denied pod (Username (usrInfo l))))
               | _ \<Rightarrow>
                   (Panicked,
                    [Metrics_Log MLogFiltered, Metrics_Bytes MBytesFiltered (length (RawData r))])))
       \<and> (metrics_calls (snd (Send key io l r))
            = [Metrics_Log MLogTransfered, Metrics_Bytes MBytesTransferred (length (RawData r))]
          \<longleftrightarrow> ReplaceAll (Username (usrInfo l)) CHR '':'' CHR ''_'' \<in> set (Split L CHR '',''))"
proof (cases "ReplaceAll (Username (usrInfo l)) CHR '':'' CHR ''_'' \<in> set (Split L CHR '','')")
  case True
  show ?thesis
    by (simp add: True Send_allowed [OF assms True] metrics_calls_append metrics_calls_Send_write
        del: append.simps)
next
  case False
  show ?thesis
  proof (cases "\<exists>pod. GetIn (Data r) [''kubernetes'', ''pod_name''] = JString pod")
    case True
    then obtain pod where pod: "GetIn (Data r) [''kubernetes'', ''pod_name''] = JString pod"
      by blast
    show ?thesis
      by (simp add: False pod Send_denied [OF assms False pod] metrics_calls_append
          metrics_calls_Send_write del: append.simps GetIn.simps)
  next
    case F: False
    then have np: "\<forall>pod. GetIn (Data r) [''kubernetes'', ''pod_name''] \<noteq> JString pod"
      by blast
    then show ?thesis
      by (simp add: False Send_panic [OF assms False np] del: GetIn.simps split: jvalue.splits)
  qed
qed

theorem Send_delivers_iff_witness:
  "GetIn (Data (example_record ''dev,system_admin'')) [''kubernetes'', ''labels'', ''rbac'']
     = JString ''dev,system_admin''
   \<and> ReplaceAll ''system:admin'' CHR '':'' CHR ''_'' = ''system_admin''
   \<and> ''system_admin'' \<in> set (Split ''dev,system_admin'' CHR '','')
   \<and> Send ''rbac'' io_ok (example_listener ''system:admin'') (example_record ''dev,system_admin'')
       = (Returned,
          [Metrics_Log MLogTransfered, Metrics_Bytes MBytesTransferred 5,
           NextWriter 7, Write ''hello'', Close])
   \<and> GetIn (Data (example_record ''alice,bob'')) [''kubernetes'', ''labels'', ''rbac'']
     = JString ''alice,bob''
   \<and> ReplaceAll ''carol'' CHR '':'' CHR ''_'' \<notin> set (Split ''alice,bob'' CHR '','')
   \<and> Send ''rbac'' io_ok (example_listener ''carol'') (example_record ''alice,bob'')
       = (Returned,
          [Metrics_Log MLogFiltered, Metrics_Bytes MBytesFiltered 5,
           NextWriter 7, Write (permission_denied ''p1'' ''carol''), Close])"
proof -
  have h: "GetIn (Data (example_record ''dev,system_admin'')) [''kubernetes'', ''labels'', ''rbac'']
           = JString ''dev,system_admin''"
    "GetIn (Data (example_record ''alice,bob'')) [''kubernetes'', ''labels'', ''rbac'']
           = JString ''alice,bob''"
    by (rule GetIn_example_labels)+
  have n: "ReplaceAll ''system:admin'' CHR '':'' CHR ''_'' = ''system_admin''"
    by (simp add: ReplaceAll_def)
  have m: "ReplaceAll (Username (usrInfo (example_listener ''system:admin''))) CHR '':'' CHR ''_''
           \<in> set (Split ''dev,system_admin'' CHR '','')"
    "ReplaceAll (Username (usrInfo (example_listener ''carol''))) CHR '':'' CHR ''_''
           \<notin> set (Split ''alice,bob'' CHR '','')"
    by (simp_all add: ReplaceAll_def example_listener_def)
  have p: "GetIn (Data (example_record ''alice,bob'')) [''kubernetes'', ''pod_name'']
           = JString ''p1''"
    by (rule GetIn_example_pod)
  have e: "Username (usrInfo (example_listener ''carol'')) = ''carol''"
    "RawData (example_record ''dev,system_admin'') = ''hello''"
    "RawData (example_record ''alice,bob'') = ''hello''"
    "Send_write io_ok (example_listener ''system:admin'') ''hello''
       = [NextWriter 7, Write ''hello'', Close]"
    "Send_write io_ok (example_listener ''carol'') (permission_denied ''p1'' ''carol'')
       = [NextWriter 7, Write (permission_denied ''p1'' ''carol''), Close]"
    by (simp_all add: example_listener_def example_record_def Send_write_def io_ok_def)
  from Send_delivers_iff [OF h(1), of io_ok "example_listener ''system:admin''"] m(1)
  have a: "Send ''rbac'' io_ok (example_listener ''system:admin'')
             (example_record ''dev,system_admin'')
       = (Returned,
          [Metrics_Log MLogTransfered, Metrics_Bytes MBytesTransferred 5,
           NextWriter 7, Write ''hello'', Close])"
    by (simp add: e)
  from Send_delivers_iff [OF h(2), of io_ok "example_listener ''carol''"] m(2)
  have b: "Send ''rbac'' io_ok (example_listener ''carol'') (example_record ''alice,bob'')
       = (Returned,
          [Metrics_Log MLogFiltered, Metrics_Bytes MBytesFiltered 5,
           NextWriter 7, Write (permission_denied ''p1'' ''carol''), Close])"
    by (simp add: p e del: GetIn.simps)
  have m': "''system_admin'' \<in> set (Split ''dev,system_admin'' CHR '','')"
    "ReplaceAll ''carol'' CHR '':'' CHR ''_'' \<notin> set (Split ''alice,bob'' CHR '','')"
    by (simp_all add: ReplaceAll_def)
  from h n m' a b show ?thesis by blast
qed

text \<open>
  C3, the failing input: the record has the access list \<^verbatim>\<open>alice,bob\<close> and no pod name, and
  the subscriber is \<^verbatim>\<open>carol\<close>. \<open>Send\<close> moves the filtered counters and then panics in the
  type assertion on the pod name; nothing is handed to the writer. With a pod name that is
  a string, the claim holds (lemma \<open>Send_denied_normalized\<close>).
\<close>

theorem Send_denied_without_pod_name_panics:
  "Send ''rbac'' io_ok (example_listener ''carol'') (example_record_no_pod ''alice,bob'')
     = (Panicked, [Metrics_Log MLogFiltered, Metrics_Bytes MBytesFiltered 5])"
  by (simp add: Send_def SeekSlice_def ReplaceAll_def
      example_listener_def example_record_no_pod_def)

text \<open>
  C4, as stated, fails: for the user \<^verbatim>\<open>system:admin\<close> and the access list
  \<^verbatim>\<open>dev,system:admin\<close>, the normalized identity \<^verbatim>\<open>system_admin\<close> is the normal form of the
  second candidate, yet the substitute payload is written and the transferred count does
  not move.
\<close>

theorem Send_normalized_candidate_counterexample:
  "Split ''dev,system:admin'' CHR '','' = [''dev'', ''system:admin'']
   \<and> ReplaceAll ''system:admin'' CHR '':'' CHR ''_'' = ''system_admin''
   \<and> written (snd (Send ''rbac'' io_ok (example_listener ''system:admin'')
                      (example_record ''dev,system:admin'')))
       = [permission_denied ''p1'' ''system:admin'']
   \<and> counter MLogTransfered (snd (Send ''rbac'' io_ok (example_listener ''system:admin'')
                      (example_record ''dev,system:admin''))) = 0
   \<and> counter MLogFiltered (snd (Send ''rbac'' io_ok (example_listener ''system:admin'')
                      (example_record ''dev,system:admin''))) = 1"
  by (simp add: Send_def SeekSlice_def ReplaceAll_def Send_write_def io_ok_def
      example_listener_def example_record_def)

text \<open>
  C4, amended: for every record whose access-list field is a string and every subscriber
  whose normalized identity is among the candidates as the list holds them (they are not
  normalized), \<open>Send\<close> returns, hands the original raw payload unmodified to the frame
  writer (once the writer has been obtained), and its calls to the metrics are
  \<^verbatim>\<open>Log(MLogTransfered)\<close> and \<^verbatim>\<open>Bytes(MBytesTransferred, len(RawData))\<close>: the transferred
  count grows by 1 and the transferred bytes by the length of the raw payload, and the
  filtered counters stay as they are.
\<close>

theorem Send_authorized_transfers:
  assumes "GetIn (Data r) [''kubernetes'', ''labels'', key] = JString L"
    and "ReplaceAll (Username (usrInfo l)) CHR '':'' CHR ''_'' \<in> set (Split L CHR '','')"
  shows "fst (Send key io l r) = Returned
       \<and> written (snd (Send key io l r)) = (if nextWriter_err io = None then [RawData r] else [])
       \<and> metrics_calls (snd (Send key io l r))
           = [Metrics_Log MLogTransfered, Metrics_Bytes MBytesTransferred (length (RawData r))]
       \<and> counter MLogTransfered (snd (Send key io l r)) = 1
       \<and> counter MBytesTransferred (snd (Send key io l r)) = length (RawData r)
       \<and> counter MLogFiltered (snd (Send key io l r)) = 0
       \<and> counter MBytesFiltered (snd (Send key io l r)) = 0"
  by (simp add: Send_allowed [OF assms] counter_append counter_Send_write
      written_append written_Send_write metrics_calls_append metrics_calls_Send_write
      del: append.simps)

theorem Send_authorized_transfers_witness:
  "GetIn (Data (example_record ''alice,bob'')) [''kubernetes'', ''labels'', ''rbac'']
     = JString ''alice,bob''
   \<and> ReplaceAll ''bob'' CHR '':'' CHR ''_'' \<in> set (Split ''alice,bob'' CHR '','')
   \<and> fst (Send ''rbac'' io_ok (example_listener ''bob'') (example_record ''alice,bob'')) = Returned
   \<and> written (snd (Send ''rbac'' io_ok (example_listener ''bob'') (example_record ''alice,bob'')))
       = [''hello'']
   \<and> counter MLogTransfered
        (snd (Send ''rbac'' io_ok (example_listener ''bob'') (example_record ''alice,bob''))) = 1
   \<and> counter MBytesTransferred
        (snd (Send ''rbac'' io_ok (example_listener ''bob'') (example_record ''alice,bob''))) = 5"
proof -
  have h: "GetIn (Data (example_record ''alice,bob'')) [''kubernetes'', ''labels'', ''rbac'']
           = JString ''alice,bob''"
    by (rule GetIn_example_labels)
  have m: "ReplaceAll (Username (usrInfo (example_listener ''bob''))) CHR '':'' CHR ''_''
           \<in> set (Split ''alice,bob'' CHR '','')"
    by (simp add: ReplaceAll_def example_listener_def)
  have e: "RawData (example_record ''alice,bob'') = ''hello''" "nextWriter_err io_ok = None"
    "Username (usrInfo (example_listener ''bob'')) = ''bob''"
    by (simp_all add: example_record_def io_ok_def example_listener_def)
  from Send_authorized_transfers [OF h m, of io_ok] h m show ?thesis
    unfolding e by simp
qed

section \<open>The send protocol: records without an access list\<close>

text \<open>
  C5: for every record in which the nested access-list field is absent or is not a string,
  \<open>Send\<close> logs one diagnostic and returns: nothing is handed to the connection, none of
  the counters moves, and no unregistration is scheduled (the connection is not torn down).
\<close>

theorem Send_missing_allow_list:
  assumes "\<forall>L. GetIn (Data r) [''kubernetes'', ''labels'', key] \<noteq> JString L"
  shows "Send key io l r = (Returned, [LogEvent ''RBAC list missing from log record'' None])
       \<and> written (snd (Send key io l r)) = []
       \<and> scheduled (snd (Send key io l r)) = []
       \<and> (\<forall>k. counter k (snd (Send key io l r)) = 0)"
  by (simp add: Send_missing [OF assms])

theorem Send_missing_allow_list_witness:
  "(\<forall>L. GetIn (Data example_record_no_labels) [''kubernetes'', ''labels'', ''rbac''] \<noteq> JString L)
   \<and> Send ''rbac'' io_ok (example_listener ''bob'') example_record_no_labels
       = (Returned, [LogEvent ''RBAC list missing from log record'' None])
   \<and> counter MLogFiltered
        (snd (Send ''rbac'' io_ok (example_listener ''bob'') example_record_no_labels)) = 0
   \<and> counter MLogTransfered
        (snd (Send ''rbac'' io_ok (example_listener ''bob'') example_record_no_labels)) = 0"
proof -
  have h: "\<forall>L. GetIn (Data example_record_no_labels) [''kubernetes'', ''labels'', ''rbac'']
               \<noteq> JString L"
    by (simp add: example_record_no_labels_def)
  from Send_missing_allow_list [OF h, of io_ok "example_listener ''bob''"] h
  show ?thesis by simp
qed

section \<open>The send protocol: failures of the write stages\<close>



section \<open>The send protocol: the pod name on the denied branch\<close>

text \<open>
  C10: on the permission-denied branch (the access-list field is a string and the
  normalized identity of the subscriber is not one of its candidates), the pod name is read
  with a type assertion that has no guard. If the nested pod-name field is a string,
  \<open>Send\<close> returns and hands the substitute payload to the writer; if it is absent or is
  not a string, \<open>Send\<close> panics and hands nothing to the writer.
\<close>

theorem Send_denied_pod_name:
  assumes "GetIn (Data r) [''kubernetes'', ''labels'', key] = JString L"
    and "ReplaceAll (Username (usrInfo l)) CHR '':'' CHR ''_'' \<notin> set (Split L CHR '','')"
  shows "(case GetIn (Data r) [''kubernetes'', ''pod_name''] of
            JString pod \<Rightarrow>
              fst (Send key io l r) = Returned \<and>
              written (snd (Send key io l r))
                = (if nextWriter_err io = None then [permission_denied pod (Username (usrInfo l))]
                   else [])
          | _ \<Rightarrow>
              fst (Send key io l r) = Panicked \<and> written (snd (Send key io l r)) = [])"
proof (cases "\<exists>pod. GetIn (Data r) [''kubernetes'', ''pod_name''] = JString pod")
  case True
  then obtain pod where pod: "GetIn (Data r) [''kubernetes'', ''pod_name''] = JString pod"
    by blast
  show ?thesis
    by (simp add: pod Send_denied [OF assms pod] written_append written_Send_write
        del: append.simps GetIn.simps)
next
  case False
  then have np: "\<forall>pod. GetIn (Data r) [''kubernetes'', ''pod_name''] \<noteq> JString pod"
    by blast
  then show ?thesis
    by (simp add: Send_panic [OF assms np] del: GetIn.simps split: jvalue.splits)
qed

theorem Send_denied_pod_name_witness:
  "GetIn (Data (example_record_no_pod ''alice,bob'')) [''kubernetes'', ''labels'', ''rbac'']
     = JString ''alice,bob''
   \<and> ReplaceAll ''dave'' CHR '':'' CHR ''_'' \<notin> set (Split ''alice,bob'' CHR '','')
   \<and> GetIn (Data (example_record_no_pod ''alice,bob'')) [''kubernetes'', ''pod_name''] = JNil
   \<and> fst (Send ''rbac'' io_ok (example_listener ''dave'') (example_record_no_pod ''alice,bob''))
       = Panicked
   \<and> written (snd (Send ''rbac'' io_ok (example_listener ''dave'')
                      (example_record_no_pod ''alice,bob''))) = []
   \<and> GetIn (Data (example_record ''alice,bob'')) [''kubernetes'', ''pod_name''] = JString ''p1''
   \<and> fst (Send ''rbac'' io_ok (example_listener ''dave'') (example_record ''alice,bob''))
       = Returned
   \<and> written (snd (Send ''rbac'' io_ok (example_listener ''dave'') (example_record ''alice,bob'')))
       = [permission_denied ''p1'' ''dave'']"
proof -
  have h: "GetIn (Data (example_record_no_pod ''alice,bob'')) [''kubernetes'', ''labels'', ''rbac'']
           = JString ''alice,bob''"
    "GetIn (Data (example_record ''alice,bob'')) [''kubernetes'', ''labels'', ''rbac'']
           = JString ''alice,bob''"
    by (rule GetIn_example_labels)+
  have m: "ReplaceAll (Username (usrInfo (example_listener ''dave''))) CHR '':'' CHR ''_''
           \<notin> set (Split ''alice,bob'' CHR '','')"
    by (simp add: ReplaceAll_def example_listener_def)
  have p: "GetIn (Data (example_record_no_pod ''alice,bob'')) [''kubernetes'', ''pod_name''] = JNil"
    "GetIn (Data (example_record ''alice,bob'')) [''kubernetes'', ''pod_name''] = JString ''p1''"
    by (rule GetIn_example_pod)+
  have e: "Username (usrInfo (example_listener ''dave'')) = ''dave''" "nextWriter_err io_ok = None"
    by (simp_all add: example_listener_def io_ok_def)
  from Send_denied_pod_name [OF h(1) m, of io_ok] Send_denied_pod_name [OF h(2) m, of io_ok]
  have "fst (Send ''rbac'' io_ok (example_listener ''dave'') (example_record_no_pod ''alice,bob''))
          = Panicked
   \<and> written (snd (Send ''rbac'' io_ok (example_listener ''dave'')
                      (example_record_no_pod ''alice,bob''))) = []
   \<and> fst (Send ''rbac'' io_ok (example_listener ''dave'') (example_record ''alice,bob''))
       = Returned
   \<and> written (snd (Send ''rbac'' io_ok (example_listener ''dave'') (example_record ''alice,bob'')))
       = [permission_denied ''p1'' ''dave'']"
    unfolding p e by simp
  with h p m show ?thesis unfolding e by simp
qed

section \<open>The admission handler: order and responses\<close>

lemma Get_absent: "map_of h key = None \<Longrightarrow> Get h key = []"
  by (simp add: Get_def)

lemma example_admission:
  "Get (Header (example_request path)) ''Authorization'' = ''tok''"
  "Get (Header (example_request path)) ''X-Token'' = []"
  "example_authenticator ''tok'' = Inr \<lparr>Username = ''bob'', UID = [], Groups = []\<rparr>"
  "ExtractFlow ''/flow/ns/name'' = Inr \<lparr>Kind = ''flow'', Namespace = ''ns'', Name = ''name''\<rparr>"
  "ExtractFlow ''/flow/name'' = Inl (ErrorString ''error parsing listener reg URL'')"
  "example_upgrader r = Inr 7"
  "failing_upgrader r = Inl (ErrorString ''websocket: not a websocket handshake'')"
  "URL_Path (example_request path) = path"
  by (simp_all add: Get_def example_request_def example_authenticator_def ExtractFlow_def
      TrimLeft_def example_upgrader_def failing_upgrader_def)

text \<open>
  C7: in the events of one admission attempt, every attempt to upgrade the transport comes
  after the read of the token header, the call of the authenticator and the call of
  \<open>ExtractFlow\<close>, and is made only when the token is present and both calls succeeded;
  every \<^verbatim>\<open>Register\<close> comes after all of these and after the upgrade, and is made only when
  the upgrade succeeded too, for the listener of the upgraded connection. When the token
  is missing, or the authenticator, the parse or the upgrade fails, the attempt holds no
  call to the registry and installs no close handler.
\<close>

theorem Listen_handler_order:
  "(let tok = Get (Header r) key; tr = Listen_handler key auth up rg lg r in
     (\<forall>pre post. tr = pre @ Upgrade # post \<longrightarrow>
        tok \<noteq> [] \<and> (\<exists>u. auth tok = Inr u) \<and> (\<exists>f. ExtractFlow (URL_Path r) = Inr f)
        \<and> Header_Get key \<in> set pre \<and> Authenticate tok \<in> set pre
        \<and> Call_ExtractFlow (URL_Path r) \<in> set pre)
   \<and> (\<forall>pre l post. tr = pre @ Register l # post \<longrightarrow>
        tok \<noteq> [] \<and> (\<exists>u. auth tok = Inr u) \<and> (\<exists>f. ExtractFlow (URL_Path r) = Inr f)
        \<and> up r = Inr (Conn l)
        \<and> Header_Get key \<in> set pre \<and> Authenticate tok \<in> set pre
        \<and> Call_ExtractFlow (URL_Path r) \<in> set pre \<and> Upgrade \<in> set pre)
   \<and> (tok = [] \<or> (\<exists>e. auth tok = Inl e) \<or> (\<exists>e. ExtractFlow (URL_Path r) = Inl e)
        \<or> (\<exists>e. up r = Inl e) \<longrightarrow> (\<forall>ev \<in> set tr. \<not> registry_event ev)))"
  unfolding Let_def Listen_handler_def
  by (auto simp: Cons_eq_append_conv split: sum.splits)

theorem Listen_handler_order_witness:
  "Listen_handler ''Authorization'' example_authenticator example_upgrader 0 0
       (example_request ''/flow/ns/name'')
     = [LogEvent ''new listener'' None, Metrics_Listeners MListenerTotal,
        Header_Get ''Authorization'', Authenticate ''tok'', Call_ExtractFlow ''/flow/ns/name'']
       @ Upgrade #
       [LogEvent ''successful websocket upgrade'' None, Metrics_Listeners MListenerApproved,
        Register \<lparr>Conn = 7, reg = 0, logs = 0,
                  flow = \<lparr>Kind = ''flow'', Namespace = ''ns'', Name = ''name''\<rparr>,
                  usrInfo = \<lparr>Username = ''bob'', UID = [], Groups = []\<rparr>\<rparr>,
        Go_ReadLoop 7,
        SetCloseHandler 7 \<lparr>Conn = 7, reg = 0, logs = 0,
                  flow = \<lparr>Kind = ''flow'', Namespace = ''ns'', Name = ''name''\<rparr>,
                  usrInfo = \<lparr>Username = ''bob'', UID = [], Groups = []\<rparr>\<rparr>]
   \<and> example_authenticator ''tok'' = Inr \<lparr>Username = ''bob'', UID = [], Groups = []\<rparr>
   \<and> ExtractFlow ''/flow/ns/name'' = Inr \<lparr>Kind = ''flow'', Namespace = ''ns'', Name = ''name''\<rparr>
   \<and> failing_upgrader (example_request ''/flow/ns/name'')
       = Inl (ErrorString ''websocket: not a websocket handshake'')
   \<and> filter registry_event
        (Listen_handler ''Authorization'' example_authenticator failing_upgrader 0 0
           (example_request ''/flow/ns/name'')) = []"
proof -
  have tr: "Listen_handler ''Authorization'' example_authenticator example_upgrader 0 0
       (example_request ''/flow/ns/name'')
     = [LogEvent ''new listener'' None, Metrics_Listeners MListenerTotal,
        Header_Get ''Authorization'', Authenticate ''tok'', Call_ExtractFlow ''/flow/ns/name'']
       @ Upgrade #
       [LogEvent ''successful websocket upgrade'' None, Metrics_Listeners MListenerApproved,
        Register \<lparr>Conn = 7, reg = 0, logs = 0,
                  flow = \<lparr>Kind = ''flow'', Namespace = ''ns'', Name = ''name''\<rparr>,
                  usrInfo = \<lparr>Username = ''bob'', UID = [], Groups = []\<rparr>\<rparr>,
        Go_ReadLoop 7,
        SetCloseHandler 7 \<lparr>Conn = 7, reg = 0, logs = 0,
                  flow = \<lparr>Kind = ''flow'', Namespace = ''ns'', Name = ''name''\<rparr>,
                  usrInfo = \<lparr>Username = ''bob'', UID = [], Groups = []\<rparr>\<rparr>]"
    by (simp add: Listen_handler_def Let_def example_admission)
  have "\<forall>ev \<in> set (Listen_handler ''Authorization'' example_authenticator failing_upgrader 0 0
           (example_request ''/flow/ns/name'')). \<not> registry_event ev"
    using Listen_handler_order [of "example_request ''/flow/ns/name''" "''Authorization''"
      example_authenticator failing_upgrader 0 0]
    by (simp add: Let_def example_admission)
  then have "filter registry_event
        (Listen_handler ''Authorization'' example_authenticator failing_upgrader 0 0
           (example_request ''/flow/ns/name'')) = []"
    by (simp add: filter_empty_conv)
  with tr show ?thesis
    using Listen_handler_order [of "example_request ''/flow/ns/name''" "''Authorization''"
      example_authenticator example_upgrader 0 0]
    by (simp add: example_admission)
qed

text \<open>
  The earlier revision of the handler has none of the first three steps before the
  upgrade: the upgrade is its first call, and the flow is parsed only on the upgraded
  connection. The handler with the token check and the authentication is the one above.
\<close>

lemma Listen_handler_v0_upgrades_first:
  "\<exists>post. Listen_handler_v0 up rg lg r = LogEvent_v0 ''new listener'' None # Upgrade_v0 # post"
  by (simp add: Listen_handler_v0_def)

lemma Listen_handler_v0_parse_after_upgrade:
  "Listen_handler_v0 example_upgrader 0 0 (example_request ''/flow/name'')
     = [LogEvent_v0 ''new listener'' None, Upgrade_v0,
        LogEvent_v0 ''successful websocket upgrade'' None,
        Call_ExtractFlow_v0 ''/flow/name'',
        Http_Error_v0 ''error parsing listener reg URL'' 404]"
  by (simp add: Listen_handler_v0_def example_upgrader_def example_request_def
      ExtractFlow_v0_def TrimLeft_def Error_def StatusNotFound_def)

text \<open>
  C8: for every incoming request: if the token header is absent (\<^verbatim>\<open>Header.Get\<close> gives the
  empty string), the handler responds with status 403 and adds one to the rejected counter;
  if the authenticator fails, it responds with status 500 and adds one to the rejected
  counter; if the flow parse fails, it responds with status 404 and leaves the rejected
  counter as it is; on full admission it writes no error response and adds one to the
  approved counter, once.
\<close>

theorem Listen_handler_responses:
  "(let tok = Get (Header r) key; tr = Listen_handler key auth up rg lg r in
     (tok = [] \<longrightarrow>
        responses tr = [(''missing authentication token'', StatusForbidden)]
        \<and> metrics_calls tr
            = [Metrics_Listeners MListenerTotal, Metrics_Listeners MListenerRejected]
        \<and> counter MListenerRejected tr = 1 \<and> counter MListenerApproved tr = 0)
   \<and> (\<forall>e. tok \<noteq> [] \<and> auth tok = Inl e \<longrightarrow>
        responses tr = [(Error e, StatusInternalServerError)]
        \<and> metrics_calls tr
            = [Metrics_Listeners MListenerTotal, Metrics_Listeners MListenerRejected]
        \<and> counter MListenerRejected tr = 1 \<and> counter MListenerApproved tr = 0)
   \<and> (\<forall>u e. tok \<noteq> [] \<and> auth tok = Inr u \<and> ExtractFlow (URL_Path r) = Inl e \<longrightarrow>
        responses tr = [(Error e, StatusNotFound)]
        \<and> metrics_calls tr = [Metrics_Listeners MListenerTotal]
        \<and> counter MListenerRejected tr = 0 \<and> counter MListenerApproved tr = 0)
   \<and> (\<forall>u f c. tok \<noteq> [] \<and> auth tok = Inr u \<and> ExtractFlow (URL_Path r) = Inr f
          \<and> up r = Inr c \<longrightarrow>
        responses tr = []
        \<and> metrics_calls tr
            = [Metrics_Listeners MListenerTotal, Metrics_Listeners MListenerApproved]
        \<and> counter MListenerRejected tr = 0 \<and> counter MListenerApproved tr = 1))"
  by (auto simp: Listen_handler_def Let_def)

theorem Listen_handler_responses_witness:
  "Get (Header (example_request ''/flow/ns/name'')) ''Authorization'' = ''tok''
   \<and> example_authenticator ''tok'' = Inr \<lparr>Username = ''bob'', UID = [], Groups = []\<rparr>
   \<and> ExtractFlow ''/flow/ns/name'' = Inr \<lparr>Kind = ''flow'', Namespace = ''ns'', Name = ''name''\<rparr>
   \<and> example_upgrader (example_request ''/flow/ns/name'') = Inr 7
   \<and> counter MListenerApproved
        (Listen_handler ''Authorization'' example_authenticator example_upgrader 0 0
           (example_request ''/flow/ns/name'')) = 1
   \<and> ExtractFlow ''/flow/name'' = Inl (ErrorString ''error parsing listener reg URL'')
   \<and> responses
        (Listen_handler ''Authorization'' example_authenticator example_upgrader 0 0
           (example_request ''/flow/name''))
       = [(''error parsing listener reg URL'', 404)]
   \<and> counter MListenerRejected
        (Listen_handler ''Authorization'' example_authenticator example_upgrader 0 0
           (example_request ''/flow/name'')) = 0
   \<and> Get (Header (example_request ''/flow/ns/name'')) ''X-Token'' = []
   \<and> responses
        (Listen_handler ''X-Token'' example_authenticator example_upgrader 0 0
           (example_request ''/flow/ns/name''))
       = [(''missing authentication token'', 403)]
   \<and> counter MListenerRejected
        (Listen_handler ''X-Token'' example_authenticator example_upgrader 0 0
           (example_request ''/flow/ns/name'')) = 1"
  using
    Listen_handler_responses [of "example_request ''/flow/ns/name''" "''Authorization''"
      example_authenticator example_upgrader 0 0]
    Listen_handler_responses [of "example_request ''/flow/name''" "''Authorization''"
      example_authenticator example_upgrader 0 0]
    Listen_handler_responses [of "example_request ''/flow/ns/name''" "''X-Token''"
      example_authenticator example_upgrader 0 0]
  by (simp add: Let_def example_admission Error_def StatusNotFound_def StatusForbidden_def)

end
